theory Spec2Isabelle
  imports Main "HOL-Library.Word" "HOL-Library.Sublist"
begin

section \<open>Strings, numbers and the escaping helper\<close>

text \<open>
  A JavaScript string is a sequence of UTF-16 code units. String literals of the
  source that are plain ASCII are written with \<open>ascii\<close>; the few literals with
  CJK characters or the middle dot are written as their code units.
\<close>

type_synonym jschar = "16 word"
type_synonym jsstring = "jschar list"

definition ascii :: "string \<Rightarrow> jsstring" where
  "ascii s = map (\<lambda>c. of_nat (of_char c)) s"

text \<open>The decimal numeral of a natural number.\<close>

fun digits :: "nat \<Rightarrow> jsstring" where
  "digits n = (if n < 10 then [of_nat (48 + n)] else digits (n div 10) @ [of_nat (48 + n mod 10)])"

declare digits.simps [simp del]

text \<open>
  The safe integers (\<open>Number.isSafeInteger\<close>): the integers of magnitude below
  \<open>2^53\<close>, which a Number holds exactly and which \<open>ToString\<close> prints digit for
  digit. A post's id is one of them; a Number beyond them (which \<open>ToString\<close> may
  round or print with an exponent) is no id of this model.
\<close>

typedef safe_int = "{i :: int. - 9007199254740991 \<le> i \<and> i \<le> 9007199254740991}"
  by (rule exI [of _ 0]) simp

text \<open>
  Template interpolation of an id (\<open>${p.id}\<close>): the decimal numeral, with a leading
  minus sign for a negative id.
\<close>

definition num_to_string :: "safe_int \<Rightarrow> jsstring" where
  "num_to_string n =
     (if Rep_safe_int n < 0 then ascii ''-'' @ digits (nat (- Rep_safe_int n))
      else digits (nat (Rep_safe_int n)))"

text \<open>
  \<open>s.replace(re, fn)\<close> for a global regular expression that is one character class
  and a function replacer: scanning left to right, every code unit in the class is a
  match \<open>m\<close> (a string of length one) and is replaced by the replacer's result; every
  other code unit is copied.
\<close>

primrec replace_class :: "(jschar \<Rightarrow> bool) \<Rightarrow> (jsstring \<Rightarrow> jsstring) \<Rightarrow> jsstring \<Rightarrow> jsstring" where
  "replace_class cls f [] = []"
| "replace_class cls f (c # cs) = (if cls c then f [c] else [c]) @ replace_class cls f cs"

text \<open>The character class \<open>[&<>"']\<close> of \<open>preventXSS\<close>: code units 26, 3C, 3E, 22, 27 (hex).\<close>

definition xss_class :: "jschar \<Rightarrow> bool" where
  "xss_class c = (c \<in> set [0x26, 0x3C, 0x3E, 0x22, 0x27])"

text \<open>The object literal of \<open>preventXSS\<close>, as its list of properties.\<close>

definition xss_table :: "(jsstring \<times> jsstring) list" where
  "xss_table =
    [([0x26], ascii ''&amp;''),
     ([0x3C], ascii ''&lt;''),
     ([0x3E], ascii ''&gt;''),
     ([0x22], ascii ''&quot;''),
     ([0x27], ascii ''&#39;'')]"

text \<open>
  The replacer \<open>m => table[m]\<close>. A key the table lacks reads as \<open>undefined\<close>, which
  \<open>replace\<close> converts to the string "undefined".
\<close>

definition xss_replacer :: "jsstring \<Rightarrow> jsstring" where
  "xss_replacer m = (case map_of xss_table m of Some e \<Rightarrow> e | None \<Rightarrow> ascii ''undefined'')"

definition preventXSS :: "jsstring \<Rightarrow> jsstring" where
  "preventXSS s = replace_class xss_class xss_replacer s"

text \<open>
  The substitution table as the specification words it: each of the five characters
  has a fixed entity, every other character stands for itself.
\<close>

definition entity_of :: "jschar \<Rightarrow> jsstring" where
  "entity_of c =
    (if c = 0x26 then ascii ''&amp;''
     else if c = 0x3C then ascii ''&lt;''
     else if c = 0x3E then ascii ''&gt;''
     else if c = 0x22 then ascii ''&quot;''
     else if c = 0x27 then ascii ''&#39;''
     else [c])"

definition escape_spec :: "jsstring \<Rightarrow> jsstring" where
  "escape_spec s = concat (map entity_of s)"

text \<open>
  \<open>String.prototype.trim\<close>: strips WhiteSpace and LineTerminator code points from
  both ends.
\<close>

definition js_whitespace :: "jschar \<Rightarrow> bool" where
  "js_whitespace c =
    (c \<in> set [0x09, 0x0A, 0x0B, 0x0C, 0x0D, 0x20, 0xA0, 0x1680, 0x2028, 0x2029, 0x202F,
               0x205F, 0x3000, 0xFEFF]
     \<or> (0x2000 \<le> c \<and> c \<le> 0x200A))"

definition trim :: "jsstring \<Rightarrow> jsstring" where
  "trim s = rev (dropWhile js_whitespace (rev (dropWhile js_whitespace s)))"

section \<open>Data model\<close>

text \<open>
  A post, with its fields typed as the data model gives them: an integer id (a
  safe integer), the message, the image URL or \<open>null\<close>, the timestamp as a string.
\<close>

record post =
  post_id :: safe_int
  message :: jsstring
  image_url :: "jsstring option"
  created_at :: jsstring

text \<open>The file handle of the image input: name, declared MIME type (empty when unknown), byte size.\<close>

record file_handle =
  file_name :: jsstring
  file_type :: jsstring
  file_size :: nat

text \<open>
  The upload descriptor. \<open>presign_fields\<close> lists the entries of the \<open>fields\<close> object in the
  order \<open>Object.entries\<close> enumerates them.
\<close>

record descriptor =
  url :: jsstring
  presign_fields :: "(jsstring \<times> jsstring) list"
  key :: jsstring

datatype jsonval = JNull | JNum int | JStr jsstring

datatype formval = FormText jsstring | FormFile file_handle

text \<open>
  A request body: none, the object handed to \<open>JSON.stringify\<close> (its properties in
  order), or a \<open>FormData\<close> (its entries in order).
\<close>

datatype reqbody = NoBody | JsonBody "(jsstring \<times> jsonval) list" | FormBody "(jsstring \<times> formval) list"

record request =
  req_url :: jsstring
  req_method :: jsstring
  req_headers :: "(jsstring \<times> jsstring) list"
  req_body :: reqbody

text \<open>
  A response: its status (an unsigned short), its body as text (\<open>res.text()\<close>)
  and its body parsed as JSON of the expected shape (\<open>res.json()\<close>, \<open>Inl\<close> the
  message of the error thrown for a malformed body). \<open>res.ok\<close> is the status being
  in 200..299.
\<close>

record 'a response =
  status :: "16 word"
  body_text :: jsstring
  body_json :: "jsstring + 'a"

definition ok :: "'a response \<Rightarrow> bool" where
  "ok res = (200 \<le> status res \<and> status res \<le> 299)"

text \<open>
  What awaiting a \<open>fetch\<close> gives: \<open>Inl msg\<close> when the promise rejects with an error
  of message \<open>msg\<close> (a transport failure), \<open>Inr res\<close> when it resolves. Every call
  settles; a call that never does leaves the handler suspended and has no outcome here.
\<close>

type_synonym 'a fetch_result = "jsstring + 'a response"

text \<open>
  The collaborators, one function per call site: the backend's presign endpoint,
  the object store, the backend's post-creation endpoint, the backend's post
  collection. Each may answer any request in any way.
\<close>

record network =
  presign_net :: "request \<Rightarrow> descriptor fetch_result"
  storage_net :: "request \<Rightarrow> unit fetch_result"
  create_net :: "request \<Rightarrow> post fetch_result"
  posts_net :: "request \<Rightarrow> post list fetch_result"

text \<open>
  The page: the markup of the list element (\<open>list.innerHTML\<close>), the form's textarea
  value and selected file, the submit button's \<open>disabled\<close> flag, the alerts shown and
  the requests issued, both oldest first.
\<close>

record world =
  list_html :: jsstring
  form_message :: jsstring
  form_file :: "file_handle option"
  btn_disabled :: bool
  alerts :: "jsstring list"
  requests :: "request list"

definition fetch :: "(request \<Rightarrow> 'a fetch_result) \<Rightarrow> request \<Rightarrow> world \<Rightarrow> 'a fetch_result \<times> world" where
  "fetch net rq w = (net rq, w\<lparr>requests := requests w @ [rq]\<rparr>)"

definition alert :: "jsstring \<Rightarrow> world \<Rightarrow> world" where
  "alert msg w = w\<lparr>alerts := alerts w @ [msg]\<rparr>"

text \<open>
  Modelled from the spec: the form's markup is not among the sources, so the default
  values \<open>form.reset()\<close> restores are taken from the specification ("clear the form
  (text and file selection)"), which the handler's own comment repeats.
\<close>

definition form_reset :: "world \<Rightarrow> world" where
  "form_reset w = w\<lparr>form_message := [], form_file := None\<rparr>"

section \<open>Post list renderer\<close>

text \<open>The conditional image tag: \<open>null\<close>, a missing property and the empty string are falsy.\<close>

definition img_tag :: "jsstring option \<Rightarrow> jsstring" where
  \<open>img_tag u = (case u of None \<Rightarrow> []
     | Some s \<Rightarrow> if s = [] then [] else ascii ''<img src="'' @ s @ ascii ''" alt="image">'')\<close>

text \<open>
  The template literal of \<open>getPosts\<close> and \<open>prependPost\<close> (the same text in both),
  line breaks and indentation included. The separator between id and date is
  space, middle dot (B7), space.
\<close>

definition postBlock :: "post \<Rightarrow> jsstring" where
  \<open>postBlock p =
     ascii ''\<newline>    <div class="post">\<newline>      <h3>'' @ preventXSS (message p)
     @ ascii ''</h3>\<newline>      '' @ img_tag (image_url p)
     @ ascii ''\<newline>      <div class="meta">#'' @ num_to_string (post_id p)
     @ [0x20, 0xB7, 0x20] @ created_at p
     @ ascii ''</div>\<newline>    </div>\<newline>  ''\<close>

text \<open>
  The placeholder of a failed fetch, six CJK characters ("unable to fetch posts");
  the presign variants wrap it in a block, the first multipart variant does not.
\<close>

definition fetch_failed_text :: jsstring where
  "fetch_failed_text = [0x7121, 0x6CD5, 0x53D6, 0x5F97, 0x8CBC, 0x6587]"

definition placeholder :: jsstring where
  \<open>placeholder = ascii ''<div class="post">'' @ fetch_failed_text @ ascii ''</div>''\<close>

definition get_posts_request :: request where
  "get_posts_request =
     \<lparr>req_url = ascii ''/api/posts'', req_method = ascii ''GET'', req_headers = [], req_body = NoBody\<rparr>"

text \<open>\<open>getPosts\<close>, parameterised by the placeholder its variant writes.\<close>

definition getPosts_with :: "jsstring \<Rightarrow> network \<Rightarrow> world \<Rightarrow> (jsstring + unit) \<times> world" where
  "getPosts_with ph net w =
     (case fetch (posts_net net) get_posts_request w of
        (Inl e, w1) \<Rightarrow> (Inl e, w1)
      | (Inr res, w1) \<Rightarrow>
          if \<not> ok res then (Inr (), w1\<lparr>list_html := ph\<rparr>)
          else (case body_json res of
                  Inl e \<Rightarrow> (Inl e, w1)
                | Inr data \<Rightarrow> (Inr (), w1\<lparr>list_html := concat (map postBlock data)\<rparr>)))"

text \<open>\<open>getPosts\<close> of web/app.js (and of the prepend variant and the second multipart variant).\<close>

definition getPosts :: "network \<Rightarrow> world \<Rightarrow> (jsstring + unit) \<times> world" where
  "getPosts = getPosts_with placeholder"


text \<open>\<open>insertAdjacentHTML("afterbegin", html)\<close>: the markup goes in front of the list's.\<close>

definition prependPost :: "post \<Rightarrow> world \<Rightarrow> world" where
  "prependPost p w = w\<lparr>list_html := postBlock p @ list_html w\<rparr>"

subsection \<open>Blocks in markup\<close>

text \<open>
  How a post block opens in markup: the \<open>div\<close> of class \<open>post\<close> with the \<open>h3\<close>
  heading as its first child, as the template lays them out. (The placeholder
  of a failed fetch is a \<open>div\<close> of class \<open>post\<close> without a heading: no post block.)
\<close>

definition block_open :: jsstring where
  \<open>block_open = ascii ''<div class="post">\<newline>      <h3>''\<close>

text \<open>The number of post blocks in markup: the positions at which one opens.\<close>

fun block_count :: "jsstring \<Rightarrow> nat" where
  "block_count [] = 0"
| "block_count (c # cs) = (if prefix block_open (c # cs) then 1 else 0) + block_count cs"

text \<open>
  A post whose unescaped text fields, \<open>image_url\<close> and \<open>created_at\<close>, hold no \<open><\<close>
  (code unit 3C).
\<close>

definition plain_post :: "post \<Rightarrow> bool" where
  "plain_post p =
     (0x3C \<notin> set (created_at p) \<and> (case image_url p of None \<Rightarrow> True | Some u \<Rightarrow> 0x3C \<notin> set u))"

section \<open>Submission flow\<close>

datatype variant = Refetch | Prepend

definition API_BASE :: jsstring where
  "API_BASE = ascii ''http://localhost:8000''"

text \<open>web/app.js prefixes its POST URLs with \<open>API_BASE\<close>; the prepend variant uses relative URLs.\<close>

fun api_base :: "variant \<Rightarrow> jsstring" where
  "api_base Refetch = API_BASE"
| "api_base Prepend = []"

definition json_headers :: "(jsstring \<times> jsstring) list" where
  "json_headers = [(ascii ''Content-Type'', ascii ''application/json'')]"

definition presign_request :: "jsstring \<Rightarrow> file_handle \<Rightarrow> request" where
  "presign_request base f =
     \<lparr>req_url = base @ ascii ''/api/presign'', req_method = ascii ''POST'',
      req_headers = json_headers,
      req_body = JsonBody
        [(ascii ''filename'', JStr (file_name f)),
         (ascii ''content_type'',
            JStr (if file_type f = [] then ascii ''application/octet-stream'' else file_type f)),
         (ascii ''size'', JNum (int (file_size f)))]\<rparr>"

text \<open>The lines of \<open>presign\<close> after its fetch: the status check and the parse.\<close>

definition presign_result :: "descriptor fetch_result \<Rightarrow> jsstring + descriptor" where
  "presign_result r =
     (case r of Inl e \<Rightarrow> Inl e
      | Inr res \<Rightarrow> if \<not> ok res then Inl (body_text res) else body_json res)"

text \<open>
  \<open>presign\<close>. Its URL is \<open>${API_BASE}/api/presign\<close> in web/app.js and
  \<open>/api/presign\<close> in the prepend variant: \<open>base\<close> is that prefix.
\<close>

definition presign :: "jsstring \<Rightarrow> network \<Rightarrow> file_handle \<Rightarrow> world \<Rightarrow> (jsstring + descriptor) \<times> world" where
  "presign base net f w =
     (case fetch (presign_net net) (presign_request base f) w of
        (r, w1) \<Rightarrow> (presign_result r, w1))"

text \<open>The loop of \<open>uploadToS3\<close> over the descriptor's entries, then the file.\<close>

definition form_data :: "descriptor \<Rightarrow> file_handle \<Rightarrow> (jsstring \<times> formval) list" where
  "form_data presignData f =
     foldl (\<lambda>fd (k, v). fd @ [(k, FormText v)]) [] (presign_fields presignData) @ [(ascii ''file'', FormFile f)]"

definition upload_request :: "descriptor \<Rightarrow> file_handle \<Rightarrow> request" where
  "upload_request presignData f =
     \<lparr>req_url = url presignData, req_method = ascii ''POST'', req_headers = [],
      req_body = FormBody (form_data presignData f)\<rparr>"

text \<open>
  The message of a failed upload: four CJK words around "S3" ("upload to S3
  failed"), a colon, a space and the status as its decimal numeral.
\<close>

definition upload_failed_text :: jsstring where
  "upload_failed_text = [0x4E0A, 0x50B3, 0x5230, 0x20, 0x53, 0x33, 0x20, 0x5931, 0x6557, 0x3A, 0x20]"

definition upload_result :: "unit fetch_result \<Rightarrow> jsstring + unit" where
  "upload_result r =
     (case r of Inl e \<Rightarrow> Inl e
      | Inr res \<Rightarrow> if \<not> ok res then Inl (upload_failed_text @ digits (unat (status res))) else Inr ())"

definition uploadToS3 :: "network \<Rightarrow> descriptor \<Rightarrow> file_handle \<Rightarrow> world \<Rightarrow> (jsstring + unit) \<times> world" where
  "uploadToS3 net presignData f w =
     (case fetch (storage_net net) (upload_request presignData f) w of
        (r, w1) \<Rightarrow> (upload_result r, w1))"

text \<open>The handler's \<open>if (file) { ... }\<close> block: the value \<open>image_key\<close> ends with.\<close>

definition image_steps :: "jsstring \<Rightarrow> network \<Rightarrow> file_handle option \<Rightarrow> world \<Rightarrow> (jsstring + jsonval) \<times> world" where
  "image_steps base net file w =
     (case file of
        None \<Rightarrow> (Inr JNull, w)
      | Some f \<Rightarrow>
          (case presign base net f w of
             (Inl e, w1) \<Rightarrow> (Inl e, w1)
           | (Inr presignData, w1) \<Rightarrow>
               (case uploadToS3 net presignData f w1 of
                  (Inl e, w2) \<Rightarrow> (Inl e, w2)
                | (Inr u, w2) \<Rightarrow> (Inr (JStr (key presignData)), w2))))"

definition register_request :: "jsstring \<Rightarrow> jsstring \<Rightarrow> jsonval \<Rightarrow> request" where
  "register_request base msg image_key =
     \<lparr>req_url = base @ ascii ''/api/posts'', req_method = ascii ''POST'',
      req_headers = json_headers,
      req_body = JsonBody [(ascii ''message'', JStr msg), (ascii ''image_key'', image_key)]\<rparr>"

text \<open>The handler's registration request and its status check.\<close>

definition register_result :: "post fetch_result \<Rightarrow> jsstring + post response" where
  "register_result r =
     (case r of Inl e \<Rightarrow> Inl e
      | Inr res \<Rightarrow> if \<not> ok res then Inl (body_text res) else Inr res)"

definition register_post :: "jsstring \<Rightarrow> network \<Rightarrow> jsstring \<Rightarrow> jsonval \<Rightarrow> world \<Rightarrow> (jsstring + post response) \<times> world" where
  "register_post base net msg image_key w =
     (case fetch (create_net net) (register_request base msg image_key) w of
        (r, w1) \<Rightarrow> (register_result r, w1))"

text \<open>
  What follows a successful registration: web/app.js resets the form and awaits
  \<open>getPosts\<close>; the prepend variant parses the created post, prepends it and resets
  the form.
\<close>

definition on_success :: "variant \<Rightarrow> network \<Rightarrow> post response \<Rightarrow> world \<Rightarrow> (jsstring + unit) \<times> world" where
  "on_success v net res w =
     (case v of
        Refetch \<Rightarrow> getPosts net (form_reset w)
      | Prepend \<Rightarrow>
          (case body_json res of
             Inl e \<Rightarrow> (Inl e, w)
           | Inr newPost \<Rightarrow> (Inr (), form_reset (prependPost newPost w))))"

text \<open>The body of the handler's \<open>try\<close>.\<close>

definition submit_try :: "variant \<Rightarrow> network \<Rightarrow> jsstring \<Rightarrow> file_handle option \<Rightarrow> world \<Rightarrow> (jsstring + unit) \<times> world" where
  "submit_try v net msg file w =
     (case image_steps (api_base v) net file w of
        (Inl e, w1) \<Rightarrow> (Inl e, w1)
      | (Inr image_key, w1) \<Rightarrow>
          (case register_post (api_base v) net msg image_key w1 of
             (Inl e, w2) \<Rightarrow> (Inl e, w2)
           | (Inr res, w2) \<Rightarrow> on_success v net res w2))"

text \<open>The prefix of the alert: four CJK characters ("upload failed"), a colon and a space.\<close>

definition alert_prefix :: jsstring where
  "alert_prefix = [0x4E0A, 0x50B3, 0x5931, 0x6557, 0x3A, 0x20]"

text \<open>
  The submit handler: read the form, disable the button, run the \<open>try\<close> body, alert
  in \<open>catch\<close>, enable the button in \<open>finally\<close>. (\<open>e.preventDefault()\<close> touches
  nothing of the page as modelled here.)
\<close>

definition submit :: "variant \<Rightarrow> network \<Rightarrow> world \<Rightarrow> world" where
  "submit v net w =
     (let msg = trim (form_message w);
          file = form_file w;
          w1 = w\<lparr>btn_disabled := True\<rparr>
      in case submit_try v net msg file w1 of
           (Inl e, w2) \<Rightarrow> (alert (alert_prefix @ e) w2)\<lparr>btn_disabled := False\<rparr>
         | (Inr u, w2) \<Rightarrow> w2\<lparr>btn_disabled := False\<rparr>)"

text \<open>
  The page \<open>w'\<close> after a submission from \<open>w\<close> that failed with message \<open>e\<close> having
  issued the requests \<open>rqs\<close>: one alert more, the prefix followed by \<open>e\<close>; the list
  and the form as they were; the button enabled.
\<close>

definition failed_with :: "world \<Rightarrow> request list \<Rightarrow> jsstring \<Rightarrow> world \<Rightarrow> bool" where
  "failed_with w rqs e w' =
     (requests w' = requests w @ rqs
      \<and> alerts w' = alerts w @ [alert_prefix @ e]
      \<and> list_html w' = list_html w
      \<and> form_message w' = form_message w
      \<and> form_file w' = form_file w
      \<and> btn_disabled w' = False)"

section \<open>Sample data\<close>

text \<open>
  Concrete replies, files, posts and pages on which the theorems below are run.
\<close>

definition ok_response :: "'a \<Rightarrow> 'a response" where
  "ok_response x = \<lparr>status = 200, body_text = [], body_json = Inr x\<rparr>"

definition error_response :: "16 word \<Rightarrow> jsstring \<Rightarrow> 'a response" where
  "error_response n t = \<lparr>status = n, body_text = t, body_json = Inl (ascii ''Unexpected token'')\<rparr>"

definition sample_post :: post where
  "sample_post = \<lparr>post_id = Abs_safe_int 7, message = ascii ''<b>hi</b>'', image_url = Some (ascii ''/img/7.png''),
     created_at = ascii ''2024-05-01''\<rparr>"

definition older_post :: post where
  "older_post = \<lparr>post_id = Abs_safe_int 3, message = ascii ''first'', image_url = None, created_at = ascii ''2024-04-30''\<rparr>"


text \<open>
  Two plain posts, and a post whose \<open>created_at\<close> continues, after the first
  one's, with the template's closing lines and the whole block of the second up
  to its own \<open>created_at\<close>.
\<close>

definition head_post :: post where
  "head_post = \<lparr>post_id = Abs_safe_int 1, message = ascii ''a'', image_url = None, created_at = ascii ''t''\<rparr>"

definition tail_post :: post where
  "tail_post = \<lparr>post_id = Abs_safe_int 2, message = ascii ''b'', image_url = None, created_at = ascii ''u''\<rparr>"

definition forged_post :: post where
  \<open>forged_post = \<lparr>post_id = Abs_safe_int 1, message = ascii ''a'', image_url = None,
     created_at =
       ascii ''t</div>\<newline>    </div>\<newline>  \<newline>    <div class="post">\<newline>      <h3>b</h3>\<newline>      \<newline>      <div class="meta">#2 ''
       @ [0xB7] @ ascii '' u''\<rparr>\<close>

definition sample_file :: file_handle where
  "sample_file = \<lparr>file_name = ascii ''cat.png'', file_type = ascii ''image/png'', file_size = 1024\<rparr>"

definition untyped_file :: file_handle where
  "untyped_file = \<lparr>file_name = ascii ''notes'', file_type = [], file_size = 12\<rparr>"

definition sample_descriptor :: descriptor where
  "sample_descriptor = \<lparr>url = ascii ''https://bucket.example/'',
     presign_fields = [(ascii ''key'', ascii ''u/cat.png''), (ascii ''policy'', ascii ''abc'')],
     key = ascii ''u/cat.png''\<rparr>"

definition sample_net :: network where
  "sample_net = \<lparr>presign_net = (\<lambda>rq. Inr (ok_response sample_descriptor)),
     storage_net = (\<lambda>rq. Inr (ok_response ())),
     create_net = (\<lambda>rq. Inr (ok_response sample_post)),
     posts_net = (\<lambda>rq. Inr (ok_response [sample_post, older_post]))\<rparr>"

definition sample_world :: world where
  "sample_world = \<lparr>list_html = postBlock older_post, form_message = ascii '' hi '', form_file = Some sample_file,
     btn_disabled = False, alerts = [], requests = []\<rparr>"


definition untyped_world :: world where
  "untyped_world = sample_world\<lparr>form_file := Some untyped_file\<rparr>"

definition no_file_world :: world where
  "no_file_world = sample_world\<lparr>form_file := None\<rparr>"

definition presign_down_net :: network where
  "presign_down_net = sample_net\<lparr>presign_net := (\<lambda>rq. Inr (error_response 500 (ascii ''S3 not configured'')))\<rparr>"

definition storage_denied_net :: network where
  "storage_denied_net = sample_net\<lparr>storage_net := (\<lambda>rq. Inr (error_response 403 []))\<rparr>"

definition offline_create_net :: network where
  "offline_create_net = sample_net\<lparr>create_net := (\<lambda>rq. Inl (ascii ''Failed to fetch''))\<rparr>"

definition presign_offline_net :: network where
  "presign_offline_net = sample_net\<lparr>presign_net := (\<lambda>rq. Inl (ascii ''Failed to fetch''))\<rparr>"

definition presign_malformed_net :: network where
  \<open>presign_malformed_net = sample_net\<lparr>presign_net := (\<lambda>rq. Inr
     \<lparr>status = 200, body_text = ascii ''<html>'', body_json = Inl (ascii ''Unexpected token'')\<rparr>)\<rparr>\<close>

definition storage_offline_net :: network where
  "storage_offline_net = sample_net\<lparr>storage_net := (\<lambda>rq. Inl (ascii ''Failed to fetch''))\<rparr>"

definition rejecting_create_net :: network where
  "rejecting_create_net = sample_net\<lparr>create_net := (\<lambda>rq. Inr (error_response 422 (ascii ''message is required'')))\<rparr>"


section \<open>The escaping helper\<close>


lemma xss_replacer_entity: "xss_class c \<Longrightarrow> xss_replacer [c] = entity_of c"
  by (auto simp: xss_class_def xss_replacer_def xss_table_def entity_of_def)

lemma entity_of_other: "\<not> xss_class c \<Longrightarrow> entity_of c = [c]"
  by (simp add: xss_class_def entity_of_def)

lemma preventXSS_escape_spec: "preventXSS s = escape_spec s"
  unfolding preventXSS_def escape_spec_def
  by (induction s) (simp_all add: xss_replacer_entity entity_of_other)

lemma entity_of_safe: "set (entity_of c) \<inter> {0x3C, 0x3E, 0x22, 0x27} = {}"
  by (simp add: entity_of_def ascii_def)

lemma escape_spec_safe: "set (escape_spec s) \<inter> {0x3C, 0x3E, 0x22, 0x27} = {}"
  unfolding escape_spec_def using entity_of_safe by (induction s) auto

section \<open>The rendered block\<close>

lemma sublist_mid: "ys = ps @ xs @ ss \<Longrightarrow> sublist xs ys"
  by (auto simp: sublist_def)

lemma postBlock_split_h3:
  \<open>postBlock p =
     ascii ''\<newline>    <div class="post">\<newline>      ''
     @ (ascii ''<h3>'' @ preventXSS (message p) @ ascii ''</h3>'')
     @ (ascii ''\<newline>      '' @ img_tag (image_url p)
        @ ascii ''\<newline>      <div class="meta">#'' @ num_to_string (post_id p)
        @ [0x20, 0xB7, 0x20] @ created_at p @ ascii ''</div>\<newline>    </div>\<newline>  '')\<close>
  by (simp add: postBlock_def ascii_def)



lemma postBlock_h3: "sublist (ascii ''<h3>'' @ preventXSS (message p) @ ascii ''</h3>'') (postBlock p)"
  by (rule sublist_mid [OF postBlock_split_h3])



lemma postBlock_head:
  \<open>prefix (ascii ''\<newline>    <div class="post">\<newline>      <h3>'' @ preventXSS (message p) @ ascii ''</h3>'')
     (postBlock p)\<close>
  unfolding prefix_def
  by (rule exI [of _ \<open>ascii ''\<newline>      '' @ img_tag (image_url p)
        @ ascii ''\<newline>      <div class="meta">#'' @ num_to_string (post_id p)
        @ [0x20, 0xB7, 0x20] @ created_at p @ ascii ''</div>\<newline>    </div>\<newline>  ''\<close>])
     (simp add: postBlock_def ascii_def)

lemma prefix_append_right: "prefix xs ys \<Longrightarrow> prefix xs (ys @ zs)"
  by (auto simp: prefix_def)




subsection \<open>Counting blocks\<close>

text \<open>
  A block opens only at a \<open><\<close>, so text without \<open><\<close> adds no block; the
  template's own text opens exactly one.
\<close>

lemma block_open_head: "prefix block_open (c # cs) \<Longrightarrow> c = 0x3C"
  by (simp add: block_open_def ascii_def)

lemma block_count_skip: "0x3C \<notin> set s \<Longrightarrow> block_count (s @ rest) = block_count rest"
  by (induction s) (auto dest: block_open_head)

lemma digit_not_lt: "k < 10 \<Longrightarrow> (of_nat (48 + k) :: jschar) \<noteq> 0x3C"
proof -
  assume "k < 10"
  then have "k \<in> {0, 1, 2, 3, 4, 5, 6, 7, 8, 9}" by auto
  then show ?thesis by auto
qed

lemma digits_plain: "0x3C \<notin> set (digits n)"
proof (induction n rule: digits.induct)
  case (1 n)
  show ?case
  proof (cases "n < 10")
    case True
    then show ?thesis using digit_not_lt [of n] by (subst digits.simps) auto
  next
    case False
    then have "0x3C \<notin> set (digits (n div 10))" using 1 by simp
    moreover have "(of_nat (48 + n mod 10) :: jschar) \<noteq> 0x3C" by (rule digit_not_lt) simp
    ultimately show ?thesis using False by (subst digits.simps) auto
  qed
qed

lemma num_to_string_plain: "0x3C \<notin> set (num_to_string n)"
  by (simp add: num_to_string_def digits_plain ascii_def)

lemma preventXSS_plain: "0x3C \<notin> set (preventXSS s)"
  using escape_spec_safe [of s] by (auto simp: preventXSS_escape_spec)

lemma block_count_head:
  \<open>block_count (ascii ''\<newline>    <div class="post">\<newline>      <h3>'' @ rest) = Suc (block_count rest)\<close>
  by (simp add: ascii_def block_open_def)

lemma block_count_h3_close: \<open>block_count (ascii ''</h3>\<newline>      '' @ rest) = block_count rest\<close>
  by (simp add: ascii_def block_open_def)

lemma block_count_meta: \<open>block_count (ascii ''\<newline>      <div class="meta">#'' @ rest) = block_count rest\<close>
  by (simp add: ascii_def block_open_def)

lemma block_count_tail: \<open>block_count (ascii ''</div>\<newline>    </div>\<newline>  '' @ rest) = block_count rest\<close>
  by (simp add: ascii_def block_open_def)

lemma block_count_img_open: \<open>block_count (ascii ''<img src="'' @ rest) = block_count rest\<close>
  by (simp add: ascii_def block_open_def)

lemma block_count_img_close: \<open>block_count (ascii ''" alt="image">'' @ rest) = block_count rest\<close>
  by (simp add: ascii_def block_open_def)

lemma block_count_img:
  "(case u of None \<Rightarrow> True | Some s \<Rightarrow> 0x3C \<notin> set s) \<Longrightarrow>
     block_count (img_tag u @ rest) = block_count rest"
  by (auto simp: img_tag_def block_count_img_open block_count_img_close block_count_skip
      split: option.splits)

lemma block_count_postBlock:
  assumes "plain_post p"
  shows "block_count (postBlock p @ rest) = Suc (block_count rest)"
proof -
  have c: "0x3C \<notin> set (created_at p)" and u: "(case image_url p of None \<Rightarrow> True | Some s \<Rightarrow> 0x3C \<notin> set s)"
    using assms by (simp_all add: plain_post_def)
  have s: "(0x3C :: jschar) \<notin> set [0x20, 0xB7, 0x20]" by simp
  show ?thesis
    unfolding postBlock_def append_assoc
    by (simp only: block_count_head block_count_skip [OF preventXSS_plain] block_count_h3_close
        block_count_img [OF u] block_count_meta block_count_skip [OF num_to_string_plain]
        block_count_skip [OF s] block_count_skip [OF c] block_count_tail)
qed


lemma block_count_placeholder: "block_count placeholder = 0" "block_count fetch_failed_text = 0"
  by (simp_all add: placeholder_def fetch_failed_text_def ascii_def block_open_def)



subsection \<open>The sample posts\<close>

lemma safe_int_rep: "- 9007199254740991 \<le> i \<Longrightarrow> i \<le> 9007199254740991 \<Longrightarrow> Rep_safe_int (Abs_safe_int i) = i"
  by (simp add: Abs_safe_int_inverse)

lemma digits_small: "n < 10 \<Longrightarrow> digits n = [of_nat (48 + n)]"
  by (subst digits.simps) simp

lemma sample_plain: "plain_post sample_post" "plain_post older_post" "plain_post head_post" "plain_post tail_post"
  by (simp_all add: plain_post_def sample_post_def older_post_def head_post_def tail_post_def ascii_def)

lemma forged_two_blocks: "postBlock forged_post = postBlock head_post @ postBlock tail_post"
  by (simp add: postBlock_def forged_post_def head_post_def tail_post_def img_tag_def num_to_string_def
      safe_int_rep digits_small preventXSS_def xss_class_def xss_replacer_def xss_table_def ascii_def)

lemma forged_count: "block_count (postBlock forged_post @ rest) = Suc (Suc (block_count rest))"
  by (simp add: forged_two_blocks block_count_postBlock sample_plain)

lemma ok_ok_response: "ok (ok_response x)" by (simp add: ok_def ok_response_def)


lemma error_not_ok:
  "\<not> ok (error_response 500 t)" "\<not> ok (error_response 403 t)" "\<not> ok (error_response 422 t)"
  by (simp_all add: ok_def error_response_def)

lemma ok_response_simps:
  "body_json (ok_response x) = Inr x" "body_text (ok_response x) = []" "status (ok_response x) = 200"
  by (simp_all add: ok_response_def)

lemma error_response_simps:
  "body_text (error_response n t) = t" "status (error_response n t) = n"
  by (simp_all add: error_response_def)

subsection \<open>Escaped and unescaped fields\<close>

text \<open>
  Claim C2. For every string, \<open>preventXSS\<close> is the substitution the specification
  describes: each occurrence of \<open>&\<close>, \<open><\<close>, \<open>>\<close>, the double quote and the single
  quote is replaced by its entity and every other code unit is kept
  (\<open>escape_spec\<close>). Its result therefore holds none of \<open><\<close>, \<open>>\<close>, double quote,
  single quote. The block rendered for a post holds the escaped message between
  \<open><h3>\<close> and \<open></h3>\<close>.
\<close>

theorem preventXSS_substitution:
  "preventXSS s = escape_spec s
   \<and> set (preventXSS s) \<inter> {0x3C, 0x3E, 0x22, 0x27} = {}
   \<and> sublist (ascii ''<h3>'' @ preventXSS (message p) @ ascii ''</h3>'') (postBlock p)"
  by (simp only: preventXSS_escape_spec escape_spec_safe postBlock_h3 [unfolded preventXSS_escape_spec] simp_thms)

text \<open>
  The substitution on a message with a script tag and quotes, character for character.
\<close>

theorem preventXSS_substitution_witness:
  \<open>preventXSS (ascii ''<script>alert("x")</script>'')
     = ascii ''&lt;script&gt;alert(&quot;x&quot;)&lt;/script&gt;''\<close>
  using preventXSS_substitution [of \<open>ascii ''<script>alert("x")</script>''\<close>]
  by (simp add: escape_spec_def entity_of_def ascii_def)



section \<open>The post list renderer\<close>

text \<open>
  Claim C9, as the code has it. \<open>prependPost\<close> puts the rendering of its post in
  front of the list's markup, which stays behind it unchanged; it issues no
  request and changes nothing else of the page. What it puts in front opens a
  post block headed by the post's escaped message, and it is exactly one block
  when the post's \<open>image_url\<close> and \<open>created_at\<close> hold no \<open><\<close>.
\<close>

theorem prependPost_front:
  \<open>list_html (prependPost p w) = postBlock p @ list_html w
   \<and> requests (prependPost p w) = requests w
   \<and> alerts (prependPost p w) = alerts w
   \<and> form_message (prependPost p w) = form_message w
   \<and> form_file (prependPost p w) = form_file w
   \<and> btn_disabled (prependPost p w) = btn_disabled w
   \<and> prefix (ascii ''\<newline>    <div class="post">\<newline>      <h3>'' @ preventXSS (message p) @ ascii ''</h3>'')
        (list_html (prependPost p w))
   \<and> drop (length (postBlock p)) (list_html (prependPost p w)) = list_html w
   \<and> (plain_post p \<longrightarrow> block_count (list_html (prependPost p w)) = Suc (block_count (list_html w)))\<close>
  by (simp add: prependPost_def block_count_postBlock prefix_append_right [OF postBlock_head])

theorem prependPost_front_witness:
  "plain_post sample_post
   \<and> list_html (prependPost sample_post sample_world) = postBlock sample_post @ postBlock older_post
   \<and> block_count (list_html sample_world) = 1
   \<and> block_count (list_html (prependPost sample_post sample_world)) = 2"
proof -
  have 1: "list_html sample_world = postBlock older_post" by (simp add: sample_world_def)
  have 2: "block_count (postBlock older_post) = 1"
    using block_count_postBlock [OF sample_plain(2), of "[]"] by simp
  have 3: "list_html (prependPost sample_post sample_world) = postBlock sample_post @ list_html sample_world"
    and 4: "block_count (list_html (prependPost sample_post sample_world)) = Suc (block_count (list_html sample_world))"
    using prependPost_front [of sample_post sample_world] sample_plain(1) by blast+
  have 5: "block_count (postBlock sample_post @ postBlock older_post) = 2"
    using 4 unfolding 3 1 2 by simp
  show ?thesis
    by (simp add: 3 1 2 5 sample_plain(1))
qed

text \<open>
  One call of \<open>prependPost\<close>, with the post whose \<open>created_at\<close> carries markup: the
  list gains two blocks.
\<close>

theorem prependPost_one_post_two_blocks:
  "list_html (prependPost forged_post sample_world) = postBlock head_post @ postBlock tail_post @ list_html sample_world
   \<and> block_count (list_html sample_world) = 1
   \<and> block_count (list_html (prependPost forged_post sample_world)) = 3"
proof -
  have 1: "list_html sample_world = postBlock older_post" by (simp add: sample_world_def)
  have 2: "block_count (postBlock older_post) = 1"
    using block_count_postBlock [OF sample_plain(2), of "[]"] by simp
  show ?thesis
    using forged_count [of "postBlock older_post"]
    by (simp add: prependPost_def 1 2 forged_two_blocks)
qed






section \<open>The submission flow\<close>

subsection \<open>The steps\<close>

lemma foldl_append_entries:
  "foldl (\<lambda>fd (k, v). fd @ [(k, FormText v)]) acc xs = acc @ map (\<lambda>(k, v). (k, FormText v)) xs"
  by (induction xs arbitrary: acc) (auto)

lemma form_data_entries:
  "form_data d f = map (\<lambda>(k, v). (k, FormText v)) (presign_fields d) @ [(ascii ''file'', FormFile f)]"
  by (simp add: form_data_def foldl_append_entries)

lemma presign_eq:
  "presign base net f w =
     (presign_result (presign_net net (presign_request base f)),
      w\<lparr>requests := requests w @ [presign_request base f]\<rparr>)"
  by (simp add: presign_def fetch_def)

lemma uploadToS3_eq:
  "uploadToS3 net d f w =
     (upload_result (storage_net net (upload_request d f)),
      w\<lparr>requests := requests w @ [upload_request d f]\<rparr>)"
  by (simp add: uploadToS3_def fetch_def)

lemma register_post_eq:
  "register_post base net msg k w =
     (register_result (create_net net (register_request base msg k)),
      w\<lparr>requests := requests w @ [register_request base msg k]\<rparr>)"
  by (simp add: register_post_def fetch_def)

text \<open>
  The message each step throws: the rejection's, the response's text or status, or the parse error's.
\<close>

lemma presign_result_cases:
  "presign_result (Inl e) = Inl e"
  "\<not> ok res \<Longrightarrow> presign_result (Inr res) = Inl (body_text res)"
  "ok res \<Longrightarrow> presign_result (Inr res) = body_json res"
  by (simp_all add: presign_result_def)

lemma upload_result_cases:
  "upload_result (Inl e) = Inl e"
  "\<not> ok r \<Longrightarrow> upload_result (Inr r) = Inl (upload_failed_text @ digits (unat (status r)))"
  "ok r \<Longrightarrow> upload_result (Inr r) = Inr ()"
  by (simp_all add: upload_result_def)

lemma register_result_cases:
  "register_result (Inl e) = Inl e"
  "\<not> ok res \<Longrightarrow> register_result (Inr res) = Inl (body_text res)"
  "ok res \<Longrightarrow> register_result (Inr res) = Inr res"
  by (simp_all add: register_result_def)

text \<open>
  The image steps, by the replies alone.
\<close>

lemma image_steps_eq:
  "image_steps base net file w =
     (case file of
        None \<Rightarrow> (Inr JNull, w)
      | Some f \<Rightarrow>
          (case presign_result (presign_net net (presign_request base f)) of
             Inl e \<Rightarrow> (Inl e, w\<lparr>requests := requests w @ [presign_request base f]\<rparr>)
           | Inr d \<Rightarrow>
               (case upload_result (storage_net net (upload_request d f)) of
                  Inl e \<Rightarrow> (Inl e, w\<lparr>requests := requests w @ [presign_request base f, upload_request d f]\<rparr>)
                | Inr u \<Rightarrow> (Inr (JStr (key d)),
                     w\<lparr>requests := requests w @ [presign_request base f, upload_request d f]\<rparr>))))"
  by (simp add: image_steps_def presign_eq uploadToS3_eq split: option.splits sum.splits)

lemma image_steps_frame:
  "list_html (snd (image_steps base net file w)) = list_html w"
  "form_message (snd (image_steps base net file w)) = form_message w"
  "form_file (snd (image_steps base net file w)) = form_file w"
  "alerts (snd (image_steps base net file w)) = alerts w"
  "btn_disabled (snd (image_steps base net file w)) = btn_disabled w"
  by (simp_all add: image_steps_eq split: option.splits sum.splits)

lemma image_steps_btn:
  "image_steps base net file (w\<lparr>btn_disabled := b\<rparr>) =
     (fst (image_steps base net file w), (snd (image_steps base net file w))\<lparr>btn_disabled := b\<rparr>)"
  by (simp add: image_steps_eq split: option.splits sum.splits)

lemma getPosts_frame:
  "requests (snd (getPosts net w)) = requests w @ [get_posts_request]"
  "form_message (snd (getPosts net w)) = form_message w"
  "form_file (snd (getPosts net w)) = form_file w"
  "alerts (snd (getPosts net w)) = alerts w"
  "btn_disabled (snd (getPosts net w)) = btn_disabled w"
  by (simp_all add: getPosts_def getPosts_with_def fetch_def split: sum.splits)


lemma on_success_requests:
  "requests (snd (on_success v net res w)) =
     requests w @ (case v of Refetch \<Rightarrow> [get_posts_request] | Prepend \<Rightarrow> [])"
  by (simp add: on_success_def getPosts_frame form_reset_def prependPost_def
      split: variant.splits sum.splits)

subsection \<open>The handler\<close>

lemma submit_requests:
  "requests (submit v net w) =
     requests (snd (submit_try v net (trim (form_message w)) (form_file w) (w\<lparr>btn_disabled := True\<rparr>)))"
  by (simp add: submit_def Let_def alert_def split: prod.splits sum.splits)

lemma submit_try_requests:
  "requests (snd (submit_try v net msg file w)) =
     requests w @
     (case file of
        None \<Rightarrow>
          register_request (api_base v) msg JNull #
          (case register_result (create_net net (register_request (api_base v) msg JNull)) of
             Inl e \<Rightarrow> []
           | Inr res \<Rightarrow> (case v of Refetch \<Rightarrow> [get_posts_request] | Prepend \<Rightarrow> []))
      | Some f \<Rightarrow>
          presign_request (api_base v) f #
          (case presign_result (presign_net net (presign_request (api_base v) f)) of
             Inl e \<Rightarrow> []
           | Inr d \<Rightarrow>
               upload_request d f #
               (case upload_result (storage_net net (upload_request d f)) of
                  Inl e \<Rightarrow> []
                | Inr u \<Rightarrow>
                    register_request (api_base v) msg (JStr (key d)) #
                    (case register_result (create_net net (register_request (api_base v) msg (JStr (key d)))) of
                       Inl e \<Rightarrow> []
                     | Inr res \<Rightarrow> (case v of Refetch \<Rightarrow> [get_posts_request] | Prepend \<Rightarrow> [])))))"
  by (simp add: submit_try_def image_steps_eq register_post_eq on_success_requests
      split: option.splits sum.splits)



lemma btn_enabled: "btn_disabled (submit v net w) = False"
  by (simp add: submit_def Let_def alert_def split: prod.splits sum.splits)

lemma submit_frame_on_image_failure:
  assumes "form_file w = Some f"
  shows "presign_result (presign_net net (presign_request (api_base v) f)) = Inl e \<Longrightarrow>
           submit v net w = w\<lparr>requests := requests w @ [presign_request (api_base v) f],
                              alerts := alerts w @ [alert_prefix @ e], btn_disabled := False\<rparr>"
    and "presign_result (presign_net net (presign_request (api_base v) f)) = Inr d \<Longrightarrow>
         upload_result (storage_net net (upload_request d f)) = Inl e \<Longrightarrow>
           submit v net w = w\<lparr>requests := requests w @ [presign_request (api_base v) f, upload_request d f],
                              alerts := alerts w @ [alert_prefix @ e], btn_disabled := False\<rparr>"
  using assms by (simp_all add: submit_def submit_try_def image_steps_eq alert_def)

lemma submit_on_register_failure:
  assumes "fst (image_steps (api_base v) net (form_file w) w) = Inr k"
    and "register_result (create_net net (register_request (api_base v) (trim (form_message w)) k)) = Inl e"
  shows "submit v net w =
     (snd (image_steps (api_base v) net (form_file w) w))
       \<lparr>requests := requests (snd (image_steps (api_base v) net (form_file w) w))
                       @ [register_request (api_base v) (trim (form_message w)) k],
        alerts := alerts w @ [alert_prefix @ e], btn_disabled := False\<rparr>"
  using assms
  by (simp add: submit_def Let_def submit_try_def image_steps_btn register_post_eq alert_def image_steps_frame
      split: prod.splits)




lemma submit_failed_presign:
  assumes "form_file w = Some f"
    and "presign_result (presign_net net (presign_request (api_base v) f)) = Inl e"
  shows "failed_with w [presign_request (api_base v) f] e (submit v net w)"
  by (simp add: failed_with_def submit_frame_on_image_failure(1) [OF assms])

lemma submit_failed_upload:
  assumes "form_file w = Some f"
    and "presign_result (presign_net net (presign_request (api_base v) f)) = Inr d"
    and "upload_result (storage_net net (upload_request d f)) = Inl e"
  shows "failed_with w [presign_request (api_base v) f, upload_request d f] e (submit v net w)"
  by (simp add: failed_with_def submit_frame_on_image_failure(2) [OF assms])

lemma submit_failed_register_no_file:
  assumes "form_file w = None"
    and "register_result (create_net net (register_request (api_base v) (trim (form_message w)) JNull)) = Inl e"
  shows "failed_with w [register_request (api_base v) (trim (form_message w)) JNull] e (submit v net w)"
proof -
  have k: "fst (image_steps (api_base v) net (form_file w) w) = Inr JNull"
    using assms(1) by (simp add: image_steps_eq)
  show ?thesis
    using assms(1) by (simp add: failed_with_def submit_on_register_failure [OF k assms(2)] image_steps_eq)
qed

lemma submit_failed_register_file:
  assumes "form_file w = Some f"
    and "presign_result (presign_net net (presign_request (api_base v) f)) = Inr d"
    and "upload_result (storage_net net (upload_request d f)) = Inr u"
    and "register_result (create_net net (register_request (api_base v) (trim (form_message w)) (JStr (key d))))
           = Inl e"
  shows "failed_with w
           [presign_request (api_base v) f, upload_request d f,
            register_request (api_base v) (trim (form_message w)) (JStr (key d))]
           e (submit v net w)"
proof -
  have k: "fst (image_steps (api_base v) net (form_file w) w) = Inr (JStr (key d))"
    using assms(1-3) by (simp add: image_steps_eq)
  show ?thesis
    using assms(1-3)
    by (simp add: failed_with_def submit_on_register_failure [OF k assms(4)] image_steps_eq)
qed

subsection \<open>Sample runs\<close>

lemma sample_world_simps:
  "form_file sample_world = Some sample_file" "form_message sample_world = ascii '' hi ''"
  "requests sample_world = []" "alerts sample_world = []" "list_html sample_world = postBlock older_post"
  by (simp_all add: sample_world_def)

lemma no_file_world_simps:
  "form_file no_file_world = None" "form_message no_file_world = ascii '' hi ''"
  "requests no_file_world = []" "alerts no_file_world = []" "list_html no_file_world = postBlock older_post"
  by (simp_all add: no_file_world_def sample_world_def)

lemma trim_sample: "trim (ascii '' hi '') = ascii ''hi''"
  by (simp add: trim_def js_whitespace_def ascii_def)

lemma digits_403: "digits 403 = ascii ''403''"
  by code_simp

lemma presign_result_ok: "presign_result (Inr (ok_response d)) = Inr d"
  by (simp add: presign_result_def ok_ok_response) (simp add: ok_response_def)

lemma upload_result_ok: "upload_result (Inr (ok_response u)) = Inr ()"
  by (simp add: upload_result_def ok_ok_response)

lemma register_result_ok: "register_result (Inr (ok_response p)) = Inr (ok_response p)"
  by (simp add: register_result_def ok_ok_response)



subsection \<open>Requests of a submission\<close>

text \<open>
  Claim C1, as the code has it. For every submission with a file selected, the
  requests issued are, in order: the presign request; then, only if presign
  returned a descriptor, the upload to the descriptor's URL, whose form holds
  every entry of the descriptor's fields in order and unmodified, followed by the
  file under the name "file"; then, only if the upload succeeded, the registration
  request carrying the trimmed message and the descriptor's key. Nothing follows
  a failed step. After a successful registration web/app.js issues one further
  request, the GET of the collection; the prepend variant issues none.
\<close>

theorem submit_with_file_requests:
  assumes "form_file w = Some f"
  shows "requests (submit v net w) =
     requests w @
     presign_request (api_base v) f #
     (case presign_result (presign_net net (presign_request (api_base v) f)) of
        Inl e \<Rightarrow> []
      | Inr d \<Rightarrow>
          upload_request d f #
          (case upload_result (storage_net net (upload_request d f)) of
             Inl e \<Rightarrow> []
           | Inr u \<Rightarrow>
               register_request (api_base v) (trim (form_message w)) (JStr (key d)) #
               (case register_result
                       (create_net net (register_request (api_base v) (trim (form_message w)) (JStr (key d)))) of
                  Inl e \<Rightarrow> []
                | Inr res \<Rightarrow> (case v of Refetch \<Rightarrow> [get_posts_request] | Prepend \<Rightarrow> []))))
   \<and> (\<forall>d. req_url (upload_request d f) = url d
          \<and> req_body (upload_request d f) =
              FormBody (map (\<lambda>(k, x). (k, FormText x)) (presign_fields d) @ [(ascii ''file'', FormFile f)]))"
  using assms
  by (simp add: submit_requests submit_try_requests upload_request_def form_data_entries)

theorem submit_with_file_requests_witness:
  "form_file sample_world = Some sample_file
   \<and> requests (submit Prepend sample_net sample_world) =
       [presign_request [] sample_file,
        upload_request sample_descriptor sample_file,
        register_request [] (ascii ''hi'') (JStr (key sample_descriptor))]
   \<and> requests (submit Prepend storage_denied_net sample_world) =
       [presign_request [] sample_file, upload_request sample_descriptor sample_file]
   \<and> req_body (upload_request sample_descriptor sample_file) =
       FormBody [(ascii ''key'', FormText (ascii ''u/cat.png'')),
                 (ascii ''policy'', FormText (ascii ''abc'')),
                 (ascii ''file'', FormFile sample_file)]"
proof -
  have f: "form_file sample_world = Some sample_file" by (simp add: sample_world_simps)
  have d: "\<not> ok (error_response 403 [] :: unit response)" by (simp add: ok_def error_response_def)
  show ?thesis
    using submit_with_file_requests [OF f, of Prepend sample_net]
      submit_with_file_requests [OF f, of Prepend storage_denied_net]
    by (simp add: sample_world_simps trim_sample sample_net_def storage_denied_net_def
        presign_result_ok upload_result_ok register_result_ok f)
       (simp add: upload_result_def d sample_descriptor_def)
qed

text \<open>
  A successful submission of web/app.js with a file issues four requests, not
  three: the refetch of the collection is the fourth.
\<close>

theorem refetch_issues_fourth_request:
  "form_file sample_world = Some sample_file
   \<and> requests (submit Refetch sample_net sample_world) =
       [presign_request API_BASE sample_file,
        upload_request sample_descriptor sample_file,
        register_request API_BASE (ascii ''hi'') (JStr (key sample_descriptor)),
        get_posts_request]
   \<and> length (requests (submit Refetch sample_net sample_world)) \<noteq> 3"
  by (simp add: submit_requests submit_try_requests sample_world_simps trim_sample sample_net_def
      presign_result_ok upload_result_ok register_result_ok)

text \<open>
  Claim C3. For every submission with no file selected, the first request is the
  registration request, whose body is the message and \<open>image_key\<close> null; the only
  request that may follow is the refetch of web/app.js. No request of the
  submission goes to the presign URL and none carries a form.
\<close>

theorem submit_without_file:
  assumes "form_file w = None"
  shows "requests (submit v net w) =
     requests w @
     register_request (api_base v) (trim (form_message w)) JNull #
     (case register_result (create_net net (register_request (api_base v) (trim (form_message w)) JNull)) of
        Inl e \<Rightarrow> []
      | Inr res \<Rightarrow> (case v of Refetch \<Rightarrow> [get_posts_request] | Prepend \<Rightarrow> []))
   \<and> req_body (register_request (api_base v) (trim (form_message w)) JNull) =
        JsonBody [(ascii ''message'', JStr (trim (form_message w))), (ascii ''image_key'', JNull)]
   \<and> (\<forall>rq \<in> set (drop (length (requests w)) (requests (submit v net w))).
          req_url rq \<noteq> api_base v @ ascii ''/api/presign'' \<and> (\<forall>fd. req_body rq \<noteq> FormBody fd))"
proof (intro conjI)
  show req: "requests (submit v net w) =
     requests w @
     register_request (api_base v) (trim (form_message w)) JNull #
     (case register_result (create_net net (register_request (api_base v) (trim (form_message w)) JNull)) of
        Inl e \<Rightarrow> []
      | Inr res \<Rightarrow> (case v of Refetch \<Rightarrow> [get_posts_request] | Prepend \<Rightarrow> []))"
    using assms by (simp add: submit_requests submit_try_requests)
  show "req_body (register_request (api_base v) (trim (form_message w)) JNull) =
        JsonBody [(ascii ''message'', JStr (trim (form_message w))), (ascii ''image_key'', JNull)]"
    by (simp add: register_request_def)
  have a: "req_url (register_request (api_base v) m k) \<noteq> api_base v @ ascii ''/api/presign''" for m k
    by (simp add: register_request_def ascii_def)
  have b: "req_url get_posts_request \<noteq> api_base v @ ascii ''/api/presign''"
    by (cases v) (simp_all add: get_posts_request_def API_BASE_def ascii_def)
  have c: "req_body (register_request (api_base v) m k) \<noteq> FormBody fd" for m k fd
    by (simp add: register_request_def)
  have d: "req_body get_posts_request \<noteq> FormBody fd" for fd
    by (simp add: get_posts_request_def)
  show "\<forall>rq \<in> set (drop (length (requests w)) (requests (submit v net w))).
          req_url rq \<noteq> api_base v @ ascii ''/api/presign'' \<and> (\<forall>fd. req_body rq \<noteq> FormBody fd)"
    unfolding req using a b c d by (auto split: sum.splits variant.splits)
qed

theorem submit_without_file_witness:
  "form_file no_file_world = None
   \<and> requests (submit Refetch sample_net no_file_world) =
       [register_request API_BASE (ascii ''hi'') JNull, get_posts_request]
   \<and> req_body (register_request API_BASE (ascii ''hi'') JNull) =
       JsonBody [(ascii ''message'', JStr (ascii ''hi'')), (ascii ''image_key'', JNull)]"
proof -
  have f: "form_file no_file_world = None" by (simp add: no_file_world_simps)
  show ?thesis
    using submit_without_file [OF f, of Refetch sample_net]
    by (simp add: no_file_world_simps trim_sample sample_net_def register_result_ok)
qed

text \<open>
  Claim C6, as the code has it. For every submission with a file, the first
  request is the presign request and its body is the object with the keys
  \<open>filename\<close>, \<open>content_type\<close>, \<open>size\<close> in this order: the file's name, the
  file's declared MIME type when that is not empty and "application/octet-stream"
  when it is, and the file's byte size.
\<close>

theorem presign_request_body:
  assumes "form_file w = Some f"
  shows "requests (submit v net w) ! length (requests w) = presign_request (api_base v) f
   \<and> req_body (presign_request (api_base v) f) =
        JsonBody
          [(ascii ''filename'', JStr (file_name f)),
           (ascii ''content_type'',
              JStr (if file_type f = [] then ascii ''application/octet-stream'' else file_type f)),
           (ascii ''size'', JNum (int (file_size f)))]"
  using assms by (simp add: submit_requests submit_try_requests presign_request_def)

theorem presign_request_body_witness:
  "form_file sample_world = Some sample_file
   \<and> requests (submit Refetch sample_net sample_world) ! 0 = presign_request API_BASE sample_file
   \<and> req_body (presign_request API_BASE sample_file) =
       JsonBody [(ascii ''filename'', JStr (ascii ''cat.png'')),
                 (ascii ''content_type'', JStr (ascii ''image/png'')),
                 (ascii ''size'', JNum 1024)]"
proof -
  have f: "form_file sample_world = Some sample_file" by (simp add: sample_world_simps)
  have t: "file_type sample_file \<noteq> []" by (simp add: sample_file_def ascii_def)
  show ?thesis
    using presign_request_body [OF f, of Refetch sample_net] t
    by (simp add: sample_world_simps) (simp add: sample_file_def)
qed

text \<open>
  A file whose declared type is empty: the body's \<open>content_type\<close> is the generic
  type, not the declared one.
\<close>

theorem presign_content_type_fallback:
  "form_file untyped_world = Some untyped_file
   \<and> file_type untyped_file = []
   \<and> requests (submit Refetch sample_net untyped_world) ! length (requests untyped_world)
       = presign_request API_BASE untyped_file
   \<and> req_body (presign_request API_BASE untyped_file) =
       JsonBody [(ascii ''filename'', JStr (ascii ''notes'')),
                 (ascii ''content_type'', JStr (ascii ''application/octet-stream'')),
                 (ascii ''size'', JNum 12)]
   \<and> JStr (ascii ''application/octet-stream'') \<noteq> JStr (file_type untyped_file)"
  by (simp add: submit_requests submit_try_requests untyped_world_def sample_world_def
      presign_request_def untyped_file_def) (simp add: ascii_def)

subsection \<open>Failure\<close>

text \<open>
  Claim C4. The button is enabled after every submission. Whenever presign, the
  upload or the registration fails, by a rejected fetch, by a reply whose status
  is outside 200..299 or, for presign, by a body that does not parse, the requests
  end with the failed step's, exactly one alert is added, and the list and the
  form are as before (\<open>failed_with\<close>). The alert's text is the fixed prefix
  followed by the failure's message: the rejection's message, the text of the
  backend's reply, the upload's status line, or the parse error's message.
\<close>

theorem submit_failure_alert:
  "btn_disabled (submit v net w) = False
   \<and> (form_file w = Some f \<longrightarrow>
        presign_net net (presign_request (api_base v) f) = Inl e \<longrightarrow>
          failed_with w [presign_request (api_base v) f] e (submit v net w))
   \<and> (form_file w = Some f \<longrightarrow>
        presign_net net (presign_request (api_base v) f) = Inr res \<longrightarrow> \<not> ok res \<longrightarrow>
          failed_with w [presign_request (api_base v) f] (body_text res) (submit v net w))
   \<and> (form_file w = Some f \<longrightarrow>
        presign_net net (presign_request (api_base v) f) = Inr res \<longrightarrow> ok res \<longrightarrow>
        body_json res = Inl e \<longrightarrow>
          failed_with w [presign_request (api_base v) f] e (submit v net w))
   \<and> (form_file w = Some f \<longrightarrow>
        presign_net net (presign_request (api_base v) f) = Inr res \<longrightarrow> ok res \<longrightarrow>
        body_json res = Inr d \<longrightarrow>
        storage_net net (upload_request d f) = Inl e \<longrightarrow>
          failed_with w [presign_request (api_base v) f, upload_request d f] e (submit v net w))
   \<and> (form_file w = Some f \<longrightarrow>
        presign_net net (presign_request (api_base v) f) = Inr res \<longrightarrow> ok res \<longrightarrow>
        body_json res = Inr d \<longrightarrow>
        storage_net net (upload_request d f) = Inr r \<longrightarrow> \<not> ok r \<longrightarrow>
          failed_with w [presign_request (api_base v) f, upload_request d f]
            (upload_failed_text @ digits (unat (status r))) (submit v net w))
   \<and> (form_file w = Some f \<longrightarrow>
        presign_net net (presign_request (api_base v) f) = Inr res \<longrightarrow> ok res \<longrightarrow>
        body_json res = Inr d \<longrightarrow>
        storage_net net (upload_request d f) = Inr r \<longrightarrow> ok r \<longrightarrow>
        create_net net (register_request (api_base v) (trim (form_message w)) (JStr (key d))) = Inl e \<longrightarrow>
          failed_with w
            [presign_request (api_base v) f, upload_request d f,
             register_request (api_base v) (trim (form_message w)) (JStr (key d))]
            e (submit v net w))
   \<and> (form_file w = Some f \<longrightarrow>
        presign_net net (presign_request (api_base v) f) = Inr res \<longrightarrow> ok res \<longrightarrow>
        body_json res = Inr d \<longrightarrow>
        storage_net net (upload_request d f) = Inr r \<longrightarrow> ok r \<longrightarrow>
        create_net net (register_request (api_base v) (trim (form_message w)) (JStr (key d))) = Inr reg \<longrightarrow>
        \<not> ok reg \<longrightarrow>
          failed_with w
            [presign_request (api_base v) f, upload_request d f,
             register_request (api_base v) (trim (form_message w)) (JStr (key d))]
            (body_text reg) (submit v net w))
   \<and> (form_file w = None \<longrightarrow>
        create_net net (register_request (api_base v) (trim (form_message w)) JNull) = Inl e \<longrightarrow>
          failed_with w [register_request (api_base v) (trim (form_message w)) JNull] e (submit v net w))
   \<and> (form_file w = None \<longrightarrow>
        create_net net (register_request (api_base v) (trim (form_message w)) JNull) = Inr reg \<longrightarrow>
        \<not> ok reg \<longrightarrow>
          failed_with w [register_request (api_base v) (trim (form_message w)) JNull]
            (body_text reg) (submit v net w))"
proof (intro conjI impI)
  show "btn_disabled (submit v net w) = False" by (rule btn_enabled)
next
  assume "form_file w = Some f" "presign_net net (presign_request (api_base v) f) = Inl e"
  then show "failed_with w [presign_request (api_base v) f] e (submit v net w)"
    by (simp add: submit_failed_presign presign_result_cases)
next
  assume "form_file w = Some f" "presign_net net (presign_request (api_base v) f) = Inr res" "\<not> ok res"
  then show "failed_with w [presign_request (api_base v) f] (body_text res) (submit v net w)"
    by (simp add: submit_failed_presign presign_result_cases)
next
  assume "form_file w = Some f" "presign_net net (presign_request (api_base v) f) = Inr res" "ok res"
    "body_json res = Inl e"
  then show "failed_with w [presign_request (api_base v) f] e (submit v net w)"
    by (simp add: submit_failed_presign presign_result_cases)
next
  assume "form_file w = Some f" "presign_net net (presign_request (api_base v) f) = Inr res" "ok res"
    "body_json res = Inr d" "storage_net net (upload_request d f) = Inl e"
  then show "failed_with w [presign_request (api_base v) f, upload_request d f] e (submit v net w)"
    by (simp add: submit_failed_upload presign_result_cases upload_result_cases)
next
  assume "form_file w = Some f" "presign_net net (presign_request (api_base v) f) = Inr res" "ok res"
    "body_json res = Inr d" "storage_net net (upload_request d f) = Inr r" "\<not> ok r"
  then show "failed_with w [presign_request (api_base v) f, upload_request d f]
            (upload_failed_text @ digits (unat (status r))) (submit v net w)"
    by (simp add: submit_failed_upload presign_result_cases upload_result_cases)
next
  assume "form_file w = Some f" "presign_net net (presign_request (api_base v) f) = Inr res" "ok res"
    "body_json res = Inr d" "storage_net net (upload_request d f) = Inr r" "ok r"
    "create_net net (register_request (api_base v) (trim (form_message w)) (JStr (key d))) = Inl e"
  then show "failed_with w
            [presign_request (api_base v) f, upload_request d f,
             register_request (api_base v) (trim (form_message w)) (JStr (key d))]
            e (submit v net w)"
    by (simp add: submit_failed_register_file presign_result_cases upload_result_cases register_result_cases)
next
  assume "form_file w = Some f" "presign_net net (presign_request (api_base v) f) = Inr res" "ok res"
    "body_json res = Inr d" "storage_net net (upload_request d f) = Inr r" "ok r"
    "create_net net (register_request (api_base v) (trim (form_message w)) (JStr (key d))) = Inr reg"
    "\<not> ok reg"
  then show "failed_with w
            [presign_request (api_base v) f, upload_request d f,
             register_request (api_base v) (trim (form_message w)) (JStr (key d))]
            (body_text reg) (submit v net w)"
    by (simp add: submit_failed_register_file presign_result_cases upload_result_cases register_result_cases)
next
  assume "form_file w = None"
    "create_net net (register_request (api_base v) (trim (form_message w)) JNull) = Inl e"
  then show "failed_with w [register_request (api_base v) (trim (form_message w)) JNull] e (submit v net w)"
    by (simp add: submit_failed_register_no_file register_result_cases)
next
  assume "form_file w = None"
    "create_net net (register_request (api_base v) (trim (form_message w)) JNull) = Inr reg" "\<not> ok reg"
  then show "failed_with w [register_request (api_base v) (trim (form_message w)) JNull]
            (body_text reg) (submit v net w)"
    by (simp add: submit_failed_register_no_file register_result_cases)
qed

theorem submit_failure_alert_witness:
  "alerts (submit Refetch presign_offline_net sample_world) = [alert_prefix @ ascii ''Failed to fetch'']
   \<and> requests (submit Refetch presign_offline_net sample_world) = [presign_request API_BASE sample_file]
   \<and> alerts (submit Refetch presign_down_net sample_world) = [alert_prefix @ ascii ''S3 not configured'']
   \<and> requests (submit Refetch presign_down_net sample_world) = [presign_request API_BASE sample_file]
   \<and> alerts (submit Refetch presign_malformed_net sample_world) = [alert_prefix @ ascii ''Unexpected token'']
   \<and> alerts (submit Refetch storage_offline_net sample_world) = [alert_prefix @ ascii ''Failed to fetch'']
   \<and> alerts (submit Refetch storage_denied_net sample_world) = [alert_prefix @ upload_failed_text @ ascii ''403'']
   \<and> requests (submit Refetch storage_denied_net sample_world) =
       [presign_request API_BASE sample_file, upload_request sample_descriptor sample_file]
   \<and> alerts (submit Refetch offline_create_net sample_world) = [alert_prefix @ ascii ''Failed to fetch'']
   \<and> alerts (submit Refetch rejecting_create_net sample_world) = [alert_prefix @ ascii ''message is required'']
   \<and> requests (submit Refetch rejecting_create_net sample_world) =
       [presign_request API_BASE sample_file, upload_request sample_descriptor sample_file,
        register_request API_BASE (ascii ''hi'') (JStr (key sample_descriptor))]
   \<and> list_html (submit Refetch rejecting_create_net sample_world) = list_html sample_world
   \<and> form_message (submit Refetch rejecting_create_net sample_world) = ascii '' hi ''
   \<and> form_file (submit Refetch rejecting_create_net sample_world) = Some sample_file
   \<and> btn_disabled (submit Refetch rejecting_create_net sample_world) = False
   \<and> alerts (submit Prepend offline_create_net no_file_world) = [alert_prefix @ ascii ''Failed to fetch'']
   \<and> requests (submit Prepend offline_create_net no_file_world) = [register_request [] (ascii ''hi'') JNull]
   \<and> alerts (submit Prepend rejecting_create_net no_file_world) = [alert_prefix @ ascii ''message is required'']
   \<and> requests (submit Prepend rejecting_create_net no_file_world) = [register_request [] (ascii ''hi'') JNull]"
proof -
  note defs = sample_world_simps no_file_world_simps trim_sample sample_net_def ok_ok_response error_not_ok
    ok_response_simps error_response_simps
  have 1: "failed_with sample_world [presign_request API_BASE sample_file] (ascii ''Failed to fetch'')
      (submit Refetch presign_offline_net sample_world)"
    using submit_failure_alert [where v = Refetch and net = presign_offline_net and w = sample_world
        and f = sample_file and e = "ascii ''Failed to fetch''"]
    by (simp add: defs presign_offline_net_def)
  have 2: "failed_with sample_world [presign_request API_BASE sample_file] (ascii ''S3 not configured'')
      (submit Refetch presign_down_net sample_world)"
    using submit_failure_alert [where v = Refetch and net = presign_down_net and w = sample_world
        and f = sample_file and res = "error_response 500 (ascii ''S3 not configured'')"]
    by (simp add: defs presign_down_net_def)
  have 3: "failed_with sample_world [presign_request API_BASE sample_file] (ascii ''Unexpected token'')
      (submit Refetch presign_malformed_net sample_world)"
    using submit_failure_alert [where v = Refetch and net = presign_malformed_net and w = sample_world
        and f = sample_file and e = "ascii ''Unexpected token''"
        and res = "\<lparr>status = 200, body_text = ascii ''<html>'', body_json = Inl (ascii ''Unexpected token'')\<rparr>"]
    by (simp add: defs presign_malformed_net_def ok_def)
  have 4: "failed_with sample_world [presign_request API_BASE sample_file, upload_request sample_descriptor sample_file]
      (ascii ''Failed to fetch'') (submit Refetch storage_offline_net sample_world)"
    using submit_failure_alert [where v = Refetch and net = storage_offline_net and w = sample_world
        and f = sample_file and e = "ascii ''Failed to fetch''" and res = "ok_response sample_descriptor"
        and d = sample_descriptor]
    by (simp add: defs storage_offline_net_def)
  have 5: "failed_with sample_world [presign_request API_BASE sample_file, upload_request sample_descriptor sample_file]
      (upload_failed_text @ ascii ''403'') (submit Refetch storage_denied_net sample_world)"
    using submit_failure_alert [where v = Refetch and net = storage_denied_net and w = sample_world
        and f = sample_file and res = "ok_response sample_descriptor" and d = sample_descriptor
        and r = "error_response 403 []"]
    by (simp add: defs storage_denied_net_def digits_403)
  have 6: "failed_with sample_world
      [presign_request API_BASE sample_file, upload_request sample_descriptor sample_file,
       register_request API_BASE (ascii ''hi'') (JStr (key sample_descriptor))]
      (ascii ''Failed to fetch'') (submit Refetch offline_create_net sample_world)"
    using submit_failure_alert [where v = Refetch and net = offline_create_net and w = sample_world
        and f = sample_file and res = "ok_response sample_descriptor" and d = sample_descriptor
        and r = "ok_response ()" and e = "ascii ''Failed to fetch''"]
    by (simp add: defs offline_create_net_def)
  have 7: "failed_with sample_world
      [presign_request API_BASE sample_file, upload_request sample_descriptor sample_file,
       register_request API_BASE (ascii ''hi'') (JStr (key sample_descriptor))]
      (ascii ''message is required'') (submit Refetch rejecting_create_net sample_world)"
    using submit_failure_alert [where v = Refetch and net = rejecting_create_net and w = sample_world
        and f = sample_file and res = "ok_response sample_descriptor" and d = sample_descriptor
        and r = "ok_response ()" and reg = "error_response 422 (ascii ''message is required'')"]
    by (simp add: defs rejecting_create_net_def)
  have 8: "failed_with no_file_world [register_request [] (ascii ''hi'') JNull] (ascii ''Failed to fetch'')
      (submit Prepend offline_create_net no_file_world)"
    using submit_failure_alert [where v = Prepend and net = offline_create_net and w = no_file_world
        and e = "ascii ''Failed to fetch''"]
    by (simp add: defs offline_create_net_def)
  have 9: "failed_with no_file_world [register_request [] (ascii ''hi'') JNull] (ascii ''message is required'')
      (submit Prepend rejecting_create_net no_file_world)"
    using submit_failure_alert [where v = Prepend and net = rejecting_create_net and w = no_file_world
        and reg = "error_response 422 (ascii ''message is required'')"]
    by (simp add: defs rejecting_create_net_def)
  show ?thesis
    using 1 2 3 4 5 6 7 8 9 by (simp add: failed_with_def sample_world_simps no_file_world_simps)
qed

subsection \<open>Success\<close>




end
